theory Spec2Isabelle
  imports Main "HOL-Library.Sublist" "HOL-Library.Word"
begin

section \<open>The build-and-stage hook of setup.py\<close>

text \<open>
  The program is one Python module, \<^verbatim>\<open>setup.py\<close>. At module level it computes the
  shared-library suffix from \<^verbatim>\<open>sys.platform\<close>, the two artifact file names and two
  directories; its class \<^verbatim>\<open>CMakeBuild\<close> overrides \<^verbatim>\<open>build_py.run\<close> with a
  straight-line sequence of six calls. Every call can raise, and an exception ends
  \<^verbatim>\<open>run\<close> at once, so a call is modelled as a function from the state to a result
  (\<open>Inl\<close> the exception) and the state it leaves behind.
\<close>

subsection \<open>Paths, file-system nodes, exceptions\<close>

text \<open>
  An absolute path is the list of its components, the root being \<open>[]\<close>;
  \<^verbatim>\<open>p / "x"\<close> of \<^verbatim>\<open>pathlib\<close> is \<open>p @ [''x'']\<close>. A regular file carries its bytes
  and its permission bits.
\<close>

type_synonym path = "string list"
type_synonym bytes = "8 word list"

datatype node = File bytes nat | Dir

type_synonym filesys = "path \<rightharpoonup> node"

datatype error =
    FileExistsError path
  | FileNotFoundError path
  | NotADirectoryError path
  | IsADirectoryError path
  | SameFileError path path
  | PermissionError path
  | CalledProcessError int "string list"
  | OtherError string

text \<open>The exceptions above that are subclasses of \<^verbatim>\<open>OSError\<close>.\<close>

fun is_OSError :: "error \<Rightarrow> bool" where
  "is_OSError (CalledProcessError rc cmd) = False"
| "is_OSError (OtherError msg) = False"
| "is_OSError e = True"

text \<open>The root directory always exists; every other path is looked up in the map.\<close>

definition node_at :: "filesys \<Rightarrow> path \<Rightarrow> node option" where
  "node_at f p = (if p = [] then Some Dir else f p)"

definition exists :: "filesys \<Rightarrow> path \<Rightarrow> bool" where
  "exists f p = (node_at f p \<noteq> None)"

definition isdir :: "filesys \<Rightarrow> path \<Rightarrow> bool" where
  "isdir f p = (node_at f p = Some Dir)"

text \<open>
  The operations below look at a path and at its parent only. On a file system in which
  every entry lies in a directory this is what resolving the whole path gives.
\<close>

definition wf_fs :: "filesys \<Rightarrow> bool" where
  "wf_fs f = (\<forall>p. p \<noteq> [] \<longrightarrow> f p \<noteq> None \<longrightarrow> isdir f (butlast p))"

subsection \<open>The standard-library calls\<close>

text \<open>
  The calls of \<^verbatim>\<open>os\<close> and \<^verbatim>\<open>shutil\<close> that \<^verbatim>\<open>run\<close> makes, on a file system of directories
  and regular files. Access rights are not checked, and symbolic links and special files do
  not occur: a call raises only for an entry that is missing or of the wrong kind. A call
  looks at a path and its parent; where a regular file lies further up above a missing
  parent the model raises \<^verbatim>\<open>FileNotFoundError\<close> and the kernel \<^verbatim>\<open>NotADirectoryError\<close>, both
  of them \<^verbatim>\<open>OSError\<close>.
\<close>

text \<open>\<^verbatim>\<open>os.mkdir(p)\<close>: the parent must be a directory and \<open>p\<close> must not exist.\<close>

definition mkdir :: "filesys \<Rightarrow> path \<Rightarrow> error + filesys" where
  "mkdir f p =
     (if exists f p then Inl (FileExistsError p)
      else case node_at f (butlast p) of
             None \<Rightarrow> Inl (FileNotFoundError p)
           | Some (File c m) \<Rightarrow> Inl (NotADirectoryError p)
           | Some Dir \<Rightarrow> Inr (f(p \<mapsto> Dir)))"

text \<open>
  The last statement of \<^verbatim>\<open>os.makedirs\<close>:
  \<^verbatim>\<open>
    try:
        mkdir(name, mode)
    except OSError:
        if not exist_ok or not path.isdir(name):
            raise
  \<close>
\<close>

definition mkdir_last :: "filesys \<Rightarrow> path \<Rightarrow> bool \<Rightarrow> error + filesys" where
  "mkdir_last f name exist_ok =
     (case mkdir f name of
        Inl e \<Rightarrow> (if \<not> exist_ok \<or> \<not> isdir f name then Inl e else Inr f)
      | Inr f' \<Rightarrow> Inr f')"

text \<open>
  \<^verbatim>\<open>os.makedirs(name, exist_ok=...)\<close>: when the parent does not exist it is made first, by
  the same function; a \<^verbatim>\<open>FileExistsError\<close> of that recursive call is swallowed. (The
  library's special case of a last component \<^verbatim>\<open>.\<close> does not arise: a \<^verbatim>\<open>pathlib\<close> path has
  none.)
  \<^verbatim>\<open>
    head, tail = path.split(name)
    if head and tail and not path.exists(head):
        try:
            makedirs(head, exist_ok=exist_ok)
        except FileExistsError:
            pass
  \<close>
\<close>

function makedirs :: "filesys \<Rightarrow> path \<Rightarrow> bool \<Rightarrow> error + filesys" where
  "makedirs f name exist_ok =
     (if name \<noteq> [] \<and> \<not> exists f (butlast name) then
        (case makedirs f (butlast name) exist_ok of
           Inl (FileExistsError q) \<Rightarrow> mkdir_last f name exist_ok
         | Inl e \<Rightarrow> Inl e
         | Inr f' \<Rightarrow> mkdir_last f' name exist_ok)
      else mkdir_last f name exist_ok)"
  by pat_completeness auto
termination
  by (relation "measure (\<lambda>(f, name, exist_ok). length name)") auto

declare makedirs.simps [simp del]

text \<open>
  \<^verbatim>\<open>shutil.copy(src, dst)\<close>: a directory as \<open>dst\<close> stands for the file of the source's
  name inside it.
  \<^verbatim>\<open>
    if os.path.isdir(dst):
        dst = os.path.join(dst, os.path.basename(src))
    copyfile(src, dst)
    copymode(src, dst)
  \<close>
\<close>

definition copy_target :: "filesys \<Rightarrow> path \<Rightarrow> path \<Rightarrow> path" where
  "copy_target f src dst = (if isdir f dst then dst @ [last src] else dst)"

text \<open>
  \<^verbatim>\<open>copyfile\<close> refuses to copy a file onto itself, opens the source for reading, then the
  destination for writing (which creates or truncates it), and writes the bytes;
  \<^verbatim>\<open>copymode\<close> then gives the destination the source's permission bits.
\<close>

definition open_write :: "filesys \<Rightarrow> path \<Rightarrow> error + unit" where
  "open_write f p =
     (case node_at f p of
        Some Dir \<Rightarrow> Inl (IsADirectoryError p)
      | Some (File c m) \<Rightarrow> Inr ()
      | None \<Rightarrow>
          (case node_at f (butlast p) of
             None \<Rightarrow> Inl (FileNotFoundError p)
           | Some (File c m) \<Rightarrow> Inl (NotADirectoryError p)
           | Some Dir \<Rightarrow> Inr ()))"

definition copy :: "filesys \<Rightarrow> path \<Rightarrow> path \<Rightarrow> error + filesys" where
  "copy f src dst =
     (let t = copy_target f src dst in
      if exists f src \<and> src = t then Inl (SameFileError src t)
      else case node_at f src of
             None \<Rightarrow> Inl (FileNotFoundError src)
           | Some Dir \<Rightarrow> Inl (IsADirectoryError src)
           | Some (File c m) \<Rightarrow>
               (case open_write f t of
                  Inl e \<Rightarrow> Inl e
                | Inr u \<Rightarrow> Inr (f(t \<mapsto> File c m))))"

text \<open>
  The same call with the access check of \<^verbatim>\<open>open\<close>. A privileged user (\<open>root\<close>) is refused
  nothing, which is the model above. For any other user the permission bits decide; the
  regular files are taken to belong to the user who runs the build, so that the owner bits
  count: \<^verbatim>\<open>S_IRUSR = 0o400\<close> to read the source, \<^verbatim>\<open>S_IWUSR = 0o200\<close> to open an existing
  destination for writing. The destination keeps the mode that \<^verbatim>\<open>copymode\<close> gave it, the
  source's. Directories carry no mode here, so creating a new entry in an existing
  directory is never refused.
\<close>

definition owner_may_read :: "nat \<Rightarrow> bool" where
  "owner_may_read m = ((m div 256) mod 2 = 1)"

definition owner_may_write :: "nat \<Rightarrow> bool" where
  "owner_may_write m = ((m div 128) mod 2 = 1)"

definition open_write_as :: "bool \<Rightarrow> filesys \<Rightarrow> path \<Rightarrow> error + unit" where
  "open_write_as root f p =
     (case node_at f p of
        Some (File c m) \<Rightarrow>
          (if root \<or> owner_may_write m then Inr () else Inl (PermissionError p))
      | Some Dir \<Rightarrow> open_write f p
      | None \<Rightarrow> open_write f p)"

definition copy_as :: "bool \<Rightarrow> filesys \<Rightarrow> path \<Rightarrow> path \<Rightarrow> error + filesys" where
  "copy_as root f src dst =
     (let t = copy_target f src dst in
      if exists f src \<and> src = t then Inl (SameFileError src t)
      else case node_at f src of
             None \<Rightarrow> Inl (FileNotFoundError src)
           | Some Dir \<Rightarrow> Inl (IsADirectoryError src)
           | Some (File c m) \<Rightarrow>
               (if \<not> root \<and> \<not> owner_may_read m then Inl (PermissionError src)
                else case open_write_as root f t of
                       Inl e \<Rightarrow> Inl e
                     | Inr u \<Rightarrow> Inr (f(t \<mapsto> File c m))))"

subsection \<open>The state of a run\<close>

text \<open>
  The state is the file system together with the log of the calls made so far, each
  call recorded when it is entered. The log is what the ordering properties are about.
\<close>

datatype event =
    MakeDirs path
  | CheckCall "string list" path
  | Copy path path
  | SuperRun

record state =
  fs :: filesys
  trace :: "event list"

type_synonym 'a io = "state \<Rightarrow> (error + 'a) \<times> state"

definition log :: "event \<Rightarrow> state \<Rightarrow> state" where
  "log ev s = s\<lparr>trace := trace s @ [ev]\<rparr>"

text \<open>Two statements in sequence: the second runs only if the first did not raise.\<close>

definition seq :: "'a io \<Rightarrow> 'b io \<Rightarrow> 'b io" where
  "seq m n s = (case m s of (Inl e, s') \<Rightarrow> (Inl e, s') | (Inr x, s') \<Rightarrow> n s')"

text \<open>A file-system call as a statement: on an exception the file system is as before.\<close>

definition fs_call :: "event \<Rightarrow> (filesys \<Rightarrow> error + filesys) \<Rightarrow> unit io" where
  "fs_call ev op s =
     (let s' = log ev s in
      case op (fs s') of
        Inl e \<Rightarrow> (Inl e, s')
      | Inr f' \<Rightarrow> (Inr (), s'\<lparr>fs := f'\<rparr>))"

definition os_makedirs :: "path \<Rightarrow> bool \<Rightarrow> unit io" where
  "os_makedirs name exist_ok = fs_call (MakeDirs name) (\<lambda>f. makedirs f name exist_ok)"

definition shutil_copy :: "path \<Rightarrow> path \<Rightarrow> unit io" where
  "shutil_copy src dst = fs_call (Copy src dst) (\<lambda>f. copy f src dst)"

subsection \<open>The environment\<close>

text \<open>
  What the module reads from outside: \<^verbatim>\<open>sys.platform\<close>, the directory of
  \<^verbatim>\<open>setup.py\<close>, the effect of running an external command in a working directory
  (either the process cannot be started, or it leaves a file system and an exit status),
  and the effect of \<^verbatim>\<open>build_py.run\<close>, the method that \<^verbatim>\<open>CMakeBuild.run\<close> overrides.
\<close>

record env =
  sys_platform :: string
  package_dir :: path
  spawn :: "string list \<Rightarrow> path \<Rightarrow> filesys \<Rightarrow> error + (int \<times> filesys)"
  build_py_run :: "filesys \<Rightarrow> error option \<times> filesys"

text \<open>
  \<^verbatim>\<open>subprocess.check_call(cmd, cwd=cwd)\<close>: a non-zero exit status is raised as
  \<^verbatim>\<open>CalledProcessError(retcode, cmd)\<close>; what the process wrote stays written.
\<close>

definition check_call :: "env \<Rightarrow> string list \<Rightarrow> path \<Rightarrow> int io" where
  "check_call e cmd cwd s =
     (let s' = log (CheckCall cmd cwd) s in
      case spawn e cmd cwd (fs s') of
        Inl err \<Rightarrow> (Inl err, s')
      | Inr (retcode, f') \<Rightarrow>
          (if retcode \<noteq> 0 then (Inl (CalledProcessError retcode cmd), s'\<lparr>fs := f'\<rparr>)
           else (Inr 0, s'\<lparr>fs := f'\<rparr>)))"

definition super_run :: "env \<Rightarrow> unit io" where
  "super_run e s =
     (let s' = log SuperRun s in
      case build_py_run e (fs s') of
        (Some err, f') \<Rightarrow> (Inl err, s'\<lparr>fs := f'\<rparr>)
      | (None, f') \<Rightarrow> (Inr (), s'\<lparr>fs := f'\<rparr>))"

subsection \<open>The module-level names\<close>

text \<open>\<^verbatim>\<open>ext = "dylib" if sys.platform == "darwin" else "so"\<close>\<close>

definition ext :: "string \<Rightarrow> string" where
  "ext platform = (if platform = ''darwin'' then ''dylib'' else ''so'')"

definition libopentrustregion_file :: "env \<Rightarrow> string" where
  "libopentrustregion_file e = ''libopentrustregion.'' @ ext (sys_platform e)"

definition libtestsuite_file :: "env \<Rightarrow> string" where
  "libtestsuite_file e = ''libtestsuite.'' @ ext (sys_platform e)"

definition build_dir :: "env \<Rightarrow> path" where
  "build_dir e = package_dir e @ [''build'']"

subsection \<open>CMakeBuild.run\<close>

text \<open>
  \<^verbatim>\<open>
    def run(self):
        os.makedirs(build_dir, exist_ok=True)
        subprocess.check_call(["cmake", ".."], cwd=build_dir)
        subprocess.check_call(["cmake", "--build", "."], cwd=build_dir)
        shutil.copy(
            build_dir / libopentrustregion_file,
            package_dir / "pyopentrustregion" / libopentrustregion_file,
        )
        shutil.copy(
            build_dir / libtestsuite_file,
            package_dir / "pyopentrustregion" / libtestsuite_file,
        )
        super().run()
  \<close>
\<close>

definition run :: "env \<Rightarrow> unit io" where
  "run e =
     seq (os_makedirs (build_dir e) True)
    (seq (check_call e [''cmake'', ''..''] (build_dir e))
    (seq (check_call e [''cmake'', ''--build'', ''.''] (build_dir e))
    (seq (shutil_copy (build_dir e @ [libopentrustregion_file e])
                      (package_dir e @ [''pyopentrustregion''] @ [libopentrustregion_file e]))
    (seq (shutil_copy (build_dir e @ [libtestsuite_file e])
                      (package_dir e @ [''pyopentrustregion''] @ [libtestsuite_file e]))
         (super_run e)))))"

text \<open>
  The statements before \<^verbatim>\<open>super().run()\<close>, on their own: they succeed exactly when
  every step that precedes the inherited behaviour succeeded.
\<close>

definition before_super :: "env \<Rightarrow> unit io" where
  "before_super e =
     seq (os_makedirs (build_dir e) True)
    (seq (check_call e [''cmake'', ''..''] (build_dir e))
    (seq (check_call e [''cmake'', ''--build'', ''.''] (build_dir e))
    (seq (shutil_copy (build_dir e @ [libopentrustregion_file e])
                      (package_dir e @ [''pyopentrustregion''] @ [libopentrustregion_file e]))
         (shutil_copy (build_dir e @ [libtestsuite_file e])
                      (package_dir e @ [''pyopentrustregion''] @ [libtestsuite_file e])))))"

text \<open>Names for the two command lines, the destination directory and the calls of a
  complete run, in the order of the source text.\<close>

abbreviation configure_cmd :: "string list" where
  "configure_cmd \<equiv> [''cmake'', ''..'']"

abbreviation compile_cmd :: "string list" where
  "compile_cmd \<equiv> [''cmake'', ''--build'', ''.'']"

definition package_data_dir :: "env \<Rightarrow> path" where
  "package_data_dir e = package_dir e @ [''pyopentrustregion'']"

definition plan :: "env \<Rightarrow> event list" where
  "plan e =
     [MakeDirs (build_dir e),
      CheckCall configure_cmd (build_dir e),
      CheckCall compile_cmd (build_dir e),
      Copy (build_dir e @ [libopentrustregion_file e])
           (package_data_dir e @ [libopentrustregion_file e]),
      Copy (build_dir e @ [libtestsuite_file e])
           (package_data_dir e @ [libtestsuite_file e]),
      SuperRun]"

text \<open>The calls that one run adds to the log.\<close>

definition events :: "env \<Rightarrow> state \<Rightarrow> event list" where
  "events e s = drop (length (trace s)) (trace (snd (run e s)))"

text \<open>
  A statement \<open>m\<close> logs the calls \<open>T\<close>: from every state it appends a non-empty prefix of
  \<open>T\<close> to the log, and all of \<open>T\<close> when it does not raise.
\<close>

definition logs :: "'a io \<Rightarrow> event list \<Rightarrow> bool" where
  "logs m T =
     (\<forall>s. \<exists>t. trace (snd (m s)) = trace s @ t \<and> prefix t T \<and> t \<noteq> [] \<and>
               (\<not> isl (fst (m s)) \<longrightarrow> t = T))"

subsection \<open>A concrete package\<close>

text \<open>
  A package in \<^verbatim>\<open>/home/pkg\<close> on Linux. The configure command writes a Makefile into its
  working directory and the compile command the two libraries; each exits with the
  status given. The inherited \<^verbatim>\<open>build_py.run\<close> changes nothing.
\<close>

definition example_spawn ::
    "int \<Rightarrow> int \<Rightarrow> string list \<Rightarrow> path \<Rightarrow> filesys \<Rightarrow> error + (int \<times> filesys)" where
  "example_spawn rc_configure rc_compile cmd cwd f =
     (if cmd = [''cmake'', ''..''] then
        Inr (rc_configure, f(cwd @ [''Makefile''] \<mapsto> File [109, 97, 107, 101] 420))
      else if cmd = [''cmake'', ''--build'', ''.''] then
        (if rc_compile = 0 then
           Inr (0, f(cwd @ [''libopentrustregion.so''] \<mapsto> File [127, 69, 76, 70, 1] 493,
                     cwd @ [''libtestsuite.so''] \<mapsto> File [127, 69, 76, 70, 2] 493))
         else Inr (rc_compile, f))
      else Inl (OtherError ''unknown command''))"

definition example_env :: "int \<Rightarrow> int \<Rightarrow> env" where
  "example_env rc_configure rc_compile =
     \<lparr>sys_platform = ''linux'', package_dir = [''home'', ''pkg''],
      spawn = example_spawn rc_configure rc_compile,
      build_py_run = (\<lambda>f. (None, f))\<rparr>"

definition example_fs :: filesys where
  "example_fs =
     [[''home''] \<mapsto> Dir, [''home'', ''pkg''] \<mapsto> Dir,
      [''home'', ''pkg'', ''setup.py''] \<mapsto> File [105, 109, 112] 420,
      [''home'', ''pkg'', ''pyopentrustregion''] \<mapsto> Dir]"

text \<open>The same package without its \<^verbatim>\<open>pyopentrustregion\<close> directory.\<close>

definition bare_fs :: filesys where
  "bare_fs =
     [[''home''] \<mapsto> Dir, [''home'', ''pkg''] \<mapsto> Dir,
      [''home'', ''pkg'', ''setup.py''] \<mapsto> File [105, 109, 112] 420]"

text \<open>The package after a successful configure and compile, before staging.\<close>

definition built_fs :: filesys where
  "built_fs =
     example_fs
       ([''home'', ''pkg'', ''build''] \<mapsto> Dir,
        [''home'', ''pkg'', ''build'', ''Makefile''] \<mapsto> File [109, 97, 107, 101] 420,
        [''home'', ''pkg'', ''build'', ''libopentrustregion.so''] \<mapsto> File [127, 69, 76, 70, 1] 493,
        [''home'', ''pkg'', ''build'', ''libtestsuite.so''] \<mapsto> File [127, 69, 76, 70, 2] 493)"

text \<open>The package between the configure and the compile step.\<close>

definition configured_fs :: filesys where
  "configured_fs =
     example_fs
       ([''home'', ''pkg'', ''build''] \<mapsto> Dir,
        [''home'', ''pkg'', ''build'', ''Makefile''] \<mapsto> File [109, 97, 107, 101] 420)"

text \<open>The package with both artifacts staged.\<close>

definition staged_fs :: filesys where
  "staged_fs =
     built_fs
       ([''home'', ''pkg'', ''pyopentrustregion'', ''libopentrustregion.so'']
          \<mapsto> File [127, 69, 76, 70, 1] 493,
        [''home'', ''pkg'', ''pyopentrustregion'', ''libtestsuite.so'']
          \<mapsto> File [127, 69, 76, 70, 2] 493)"

text \<open>The package without its \<^verbatim>\<open>pyopentrustregion\<close> directory, after configure and compile.\<close>

definition bare_built_fs :: filesys where
  "bare_built_fs =
     bare_fs
       ([''home'', ''pkg'', ''build''] \<mapsto> Dir,
        [''home'', ''pkg'', ''build'', ''Makefile''] \<mapsto> File [109, 97, 107, 101] 420,
        [''home'', ''pkg'', ''build'', ''libopentrustregion.so''] \<mapsto> File [127, 69, 76, 70, 1] 493,
        [''home'', ''pkg'', ''build'', ''libtestsuite.so''] \<mapsto> File [127, 69, 76, 70, 2] 493)"

text \<open>
  A toolchain whose compile step exits with status 0 but writes the core library only, so
  that the test-suite library is missing when it is to be staged.
\<close>

definition core_only_spawn ::
    "string list \<Rightarrow> path \<Rightarrow> filesys \<Rightarrow> error + (int \<times> filesys)" where
  "core_only_spawn cmd cwd f =
     (if cmd = [''cmake'', ''..''] then
        Inr (0, f(cwd @ [''Makefile''] \<mapsto> File [109, 97, 107, 101] 420))
      else if cmd = [''cmake'', ''--build'', ''.''] then
        Inr (0, f(cwd @ [''libopentrustregion.so''] \<mapsto> File [127, 69, 76, 70, 1] 493))
      else Inl (OtherError ''unknown command''))"

definition core_only_env :: env where
  "core_only_env =
     \<lparr>sys_platform = ''linux'', package_dir = [''home'', ''pkg''],
      spawn = core_only_spawn,
      build_py_run = (\<lambda>f. (None, f))\<rparr>"

definition core_only_fs :: filesys where
  "core_only_fs =
     configured_fs
       ([''home'', ''pkg'', ''build'', ''libopentrustregion.so''] \<mapsto> File [127, 69, 76, 70, 1] 493)"

text \<open>
  The built package with a read-only core library (mode \<^verbatim>\<open>0o444\<close>), the file system after
  that library has been staged, and the latter after a second build has written new
  content, read-only again, to the build directory.
\<close>

definition readonly_built_fs :: filesys where
  "readonly_built_fs =
     built_fs
       ([''home'', ''pkg'', ''build'', ''libopentrustregion.so''] \<mapsto> File [127, 69, 76, 70, 1] 292)"

definition readonly_staged_fs :: filesys where
  "readonly_staged_fs =
     readonly_built_fs
       ([''home'', ''pkg'', ''pyopentrustregion'', ''libopentrustregion.so'']
          \<mapsto> File [127, 69, 76, 70, 1] 292)"

definition readonly_rebuilt_fs :: filesys where
  "readonly_rebuilt_fs =
     readonly_staged_fs
       ([''home'', ''pkg'', ''build'', ''libopentrustregion.so'']
          \<mapsto> File [127, 69, 76, 70, 7, 7] 292)"

section \<open>Properties of the standard-library model\<close>

subsection \<open>mkdir and makedirs\<close>

lemma mkdir_Inr:
  "mkdir f p = Inr f1 \<Longrightarrow> f1 = f(p \<mapsto> Dir) \<and> f p = None \<and> p \<noteq> [] \<and> isdir f (butlast p)"
  by (auto simp: mkdir_def exists_def isdir_def node_at_def split: if_splits option.splits node.splits)

lemma mkdir_FileExists:
  "mkdir f p = Inl (FileExistsError q) \<Longrightarrow> exists f p"
  by (auto simp: mkdir_def split: if_splits option.splits node.splits)

lemma mkdir_last_Inr:
  "mkdir_last f p x = Inr f1 \<Longrightarrow>
     (f1 = f(p \<mapsto> Dir) \<and> f p = None \<and> p \<noteq> [] \<and> isdir f (butlast p)) \<or> (f1 = f \<and> x \<and> isdir f p)"
  by (auto simp: mkdir_last_def dest: mkdir_Inr split: sum.splits if_splits)

lemma mkdir_last_FileExists:
  "mkdir_last f p x = Inl (FileExistsError q) \<Longrightarrow> exists f p"
  by (auto simp: mkdir_last_def dest: mkdir_FileExists split: sum.splits if_splits)

lemma makedirs_base:
  "name = [] \<or> exists f (butlast name) \<Longrightarrow> makedirs f name x = mkdir_last f name x"
  by (subst makedirs.simps) auto

lemma makedirs_rec:
  "name \<noteq> [] \<Longrightarrow> \<not> exists f (butlast name) \<Longrightarrow>
   makedirs f name x =
     (case makedirs f (butlast name) x of
        Inl (FileExistsError q) \<Rightarrow> mkdir_last f name x
      | Inl e \<Rightarrow> Inl e
      | Inr f' \<Rightarrow> mkdir_last f' name x)"
  by (subst makedirs.simps) simp

text \<open>How a successful makedirs ends: with mkdir_last on the file system that the
  recursive call (if any) left.\<close>

lemma makedirs_Inr_cases:
  assumes "makedirs f name x = Inr f1"
  obtains (base) "name = [] \<or> exists f (butlast name)" "mkdir_last f name x = Inr f1"
        | (swallowed) q where "name \<noteq> []" "\<not> exists f (butlast name)"
            "makedirs f (butlast name) x = Inl (FileExistsError q)" "mkdir_last f name x = Inr f1"
        | (made) f' where "name \<noteq> []" "\<not> exists f (butlast name)"
            "makedirs f (butlast name) x = Inr f'" "mkdir_last f' name x = Inr f1"
proof (cases "name = [] \<or> exists f (butlast name)")
  case True
  then show ?thesis using assms base by (simp add: makedirs_base)
next
  case False
  then have r: "name \<noteq> []" "\<not> exists f (butlast name)" by auto
  show ?thesis
  proof (cases "makedirs f (butlast name) x")
    case (Inl err)
    then show ?thesis using assms r swallowed
      by (cases err) (simp_all add: makedirs_rec)
  next
    case (Inr f')
    then show ?thesis using assms r made by (simp add: makedirs_rec)
  qed
qed

lemma makedirs_frame:
  "makedirs f p x = Inr f1 \<Longrightarrow> \<not> prefix q p \<Longrightarrow> f1 q = f q"
proof (induction f p x arbitrary: f1 rule: makedirs.induct)
  case (1 f name exist_ok)
  have np: "q \<noteq> name" using "1.prems"(2) by auto
  from "1.prems"(1) show ?case
  proof (cases rule: makedirs_Inr_cases)
    case base
    then show ?thesis using np by (auto dest!: mkdir_last_Inr)
  next
    case (swallowed q')
    then show ?thesis using np by (auto dest!: mkdir_last_Inr)
  next
    case (made f')
    have nq: "\<not> prefix q (butlast name)"
      using "1.prems"(2) by (meson prefix_order.trans prefixeq_butlast)
    have "f' q = f q" using "1.IH" made nq by blast
    then show ?thesis using made(4) np by (auto dest!: mkdir_last_Inr)
  qed
qed

lemma makedirs_keeps:
  "makedirs f p x = Inr f1 \<Longrightarrow> f q \<noteq> None \<Longrightarrow> f1 q = f q"
proof (induction f p x arbitrary: f1 rule: makedirs.induct)
  case (1 f name exist_ok)
  from "1.prems"(1) show ?case
  proof (cases rule: makedirs_Inr_cases)
    case base
    then show ?thesis using "1.prems"(2) by (auto dest!: mkdir_last_Inr)
  next
    case (swallowed q')
    then show ?thesis using "1.prems"(2) by (auto dest!: mkdir_last_Inr)
  next
    case (made f')
    have "f' q = f q" using "1.IH" made "1.prems"(2) by blast
    then show ?thesis using made(4) "1.prems"(2) by (auto dest!: mkdir_last_Inr)
  qed
qed

lemma makedirs_FileExists:
  "makedirs f p x = Inl (FileExistsError q) \<Longrightarrow> exists f p"
proof (cases "p = [] \<or> exists f (butlast p)")
  case True
  assume "makedirs f p x = Inl (FileExistsError q)"
  then show ?thesis using True by (auto simp: makedirs_base dest: mkdir_last_FileExists)
next
  case False
  assume a: "makedirs f p x = Inl (FileExistsError q)"
  from False have r: "p \<noteq> []" "\<not> exists f (butlast p)" by auto
  show ?thesis
  proof (cases "makedirs f (butlast p) x")
    case (Inl err)
    then show ?thesis using a r
      by (cases err) (auto simp: makedirs_rec dest: mkdir_last_FileExists)
  next
    case (Inr f')
    then have "mkdir_last f' p x = Inl (FileExistsError q)" using a r by (simp add: makedirs_rec)
    then have "exists f' p" by (rule mkdir_last_FileExists)
    moreover have "\<not> prefix p (butlast p)" using r(1)
      by (metis append_butlast_last_id prefix_order.eq_iff prefixeq_butlast same_prefix_nil not_Cons_self2 append_Nil2)
    then have "f' p = f p" using makedirs_frame [OF Inr] by blast
    ultimately show ?thesis using r(1) by (simp add: exists_def node_at_def)
  qed
qed

lemma not_prefix_butlast: "p \<noteq> [] \<Longrightarrow> \<not> prefix p (butlast p)"
  by (metis append_butlast_last_id prefix_order.eq_iff prefixeq_butlast same_prefix_nil not_Cons_self2 append_Nil2)

lemma makedirs_isdir:
  "makedirs f p x = Inr f1 \<Longrightarrow> isdir f1 p \<and> exists f1 (butlast p)"
proof (induction f p x arbitrary: f1 rule: makedirs.induct)
  case (1 f name exist_ok)
  from "1.prems" show ?case
  proof (cases rule: makedirs_Inr_cases)
    case base
    then show ?thesis
      by (auto dest!: mkdir_last_Inr simp: isdir_def exists_def node_at_def)
  next
    case (swallowed q)
    then show ?thesis using makedirs_FileExists by blast
  next
    case (made f')
    have "isdir f' (butlast name)" using "1.IH" made by blast
    then show ?thesis using made(1,4) not_prefix_butlast [of name]
      by (auto dest!: mkdir_last_Inr simp: isdir_def exists_def node_at_def)
  qed
qed

lemma makedirs_again:
  assumes "makedirs f p True = Inr f1"
  shows "makedirs f1 p True = Inr f1"
proof -
  have d: "isdir f1 p" "exists f1 (butlast p)" using makedirs_isdir [OF assms] by auto
  then have "exists f1 p" by (simp add: isdir_def exists_def)
  then have "mkdir f1 p = Inl (FileExistsError p)" by (simp add: mkdir_def)
  then have "mkdir_last f1 p True = Inr f1" using d(1) by (simp add: mkdir_last_def)
  then show ?thesis using d(2) by (simp add: makedirs_base)
qed

lemma makedirs_present:
  assumes "wf_fs f" "isdir f p"
  shows "makedirs f p True = Inr f"
proof -
  have "exists f (butlast p)"
    using assms by (cases "p = []") (auto simp: wf_fs_def isdir_def exists_def node_at_def)
  moreover have "mkdir f p = Inl (FileExistsError p)"
    using assms(2) by (simp add: mkdir_def isdir_def exists_def)
  then have "mkdir_last f p True = Inr f" using assms(2) by (simp add: mkdir_last_def)
  ultimately show ?thesis by (simp add: makedirs_base)
qed

lemma isdir_upd_Dir: "isdir f q \<Longrightarrow> isdir (f(p \<mapsto> Dir)) q"
  by (auto simp: isdir_def node_at_def)

lemma wf_fs_mkdir:
  assumes "wf_fs f" "isdir f (butlast p)"
  shows "wf_fs (f(p \<mapsto> Dir))"
  unfolding wf_fs_def
proof (intro allI impI)
  fix q :: path
  assume q: "q \<noteq> []" "(f(p \<mapsto> Dir)) q \<noteq> None"
  have "isdir f (butlast q)"
  proof (cases "q = p")
    case True
    then show ?thesis using assms(2) by simp
  next
    case False
    then show ?thesis using q assms(1) by (simp add: wf_fs_def)
  qed
  then show "isdir (f(p \<mapsto> Dir)) (butlast q)" by (rule isdir_upd_Dir)
qed

lemma mkdir_last_wf: "wf_fs f \<Longrightarrow> mkdir_last f p x = Inr f1 \<Longrightarrow> wf_fs f1"
  by (auto dest!: mkdir_last_Inr intro: wf_fs_mkdir)

lemma makedirs_wf:
  "makedirs f p x = Inr f1 \<Longrightarrow> wf_fs f \<Longrightarrow> wf_fs f1"
proof (induction f p x arbitrary: f1 rule: makedirs.induct)
  case (1 f name exist_ok)
  from "1.prems"(1) show ?case
  proof (cases rule: makedirs_Inr_cases)
    case base
    then show ?thesis using "1.prems"(2) mkdir_last_wf by blast
  next
    case (swallowed q)
    then show ?thesis using "1.prems"(2) mkdir_last_wf by blast
  next
    case (made f')
    have "wf_fs f'" using "1.IH" made "1.prems"(2) by blast
    then show ?thesis using made(4) mkdir_last_wf by blast
  qed
qed

lemma wf_fs_empty: "wf_fs Map.empty"
  by (simp add: wf_fs_def)

lemma wf_fs_write:
  assumes "wf_fs f" "isdir f (butlast p)" "\<not> isdir f p"
  shows "wf_fs (f(p \<mapsto> File c m))"
  unfolding wf_fs_def
proof (intro allI impI)
  fix q :: path
  assume q: "q \<noteq> []" "(f(p \<mapsto> File c m)) q \<noteq> None"
  have d: "isdir f (butlast q)"
  proof (cases "q = p")
    case True
    then show ?thesis using assms(2) by simp
  next
    case False
    then show ?thesis using q assms(1) by (simp add: wf_fs_def)
  qed
  then have "butlast q \<noteq> p" using assms(3) by auto
  then show "isdir (f(p \<mapsto> File c m)) (butlast q)"
    using d by (auto simp: isdir_def node_at_def)
qed

lemma wf_bare_fs: "wf_fs bare_fs"
  unfolding bare_fs_def
  by (intro wf_fs_write wf_fs_mkdir wf_fs_empty) (simp_all add: isdir_def node_at_def)

lemma wf_example_fs: "wf_fs example_fs"
  unfolding example_fs_def
  by (intro wf_fs_write wf_fs_mkdir wf_fs_empty) (simp_all add: isdir_def node_at_def)

subsection \<open>copy\<close>

lemma copy_Inr:
  assumes "copy f src dst = Inr f1"
  obtains c m where "src \<noteq> []" "f src = Some (File c m)" "src \<noteq> copy_target f src dst"
    "open_write f (copy_target f src dst) = Inr ()"
    "f1 = f(copy_target f src dst \<mapsto> File c m)"
  using assms
  by (auto simp: copy_def Let_def exists_def node_at_def
           split: if_splits option.splits node.splits sum.splits)

lemma copy_ok:
  assumes "src \<noteq> []" "f src = Some (File c m)" "src \<noteq> copy_target f src dst"
    "open_write f (copy_target f src dst) = Inr ()"
  shows "copy f src dst = Inr (f(copy_target f src dst \<mapsto> File c m))"
  using assms by (simp add: copy_def Let_def node_at_def)

lemma copy_as_root: "copy_as True f src dst = copy f src dst"
  by (auto simp: copy_as_def copy_def open_write_as_def open_write_def Let_def
           split: option.splits node.splits)

lemma copy_as_Inr:
  assumes "copy_as root f src dst = Inr f1"
  obtains c m where "src \<noteq> []" "f src = Some (File c m)" "src \<noteq> copy_target f src dst"
    "root \<or> owner_may_read m"
    "open_write_as root f (copy_target f src dst) = Inr ()"
    "f1 = f(copy_target f src dst \<mapsto> File c m)"
  using assms
  by (auto simp: copy_as_def Let_def exists_def node_at_def
           split: if_splits option.splits node.splits sum.splits)

lemma copy_as_ok:
  assumes "src \<noteq> []" "f src = Some (File c m)" "src \<noteq> copy_target f src dst"
    "root \<or> owner_may_read m"
    "open_write_as root f (copy_target f src dst) = Inr ()"
  shows "copy_as root f src dst = Inr (f(copy_target f src dst \<mapsto> File c m))"
  using assms by (auto simp: copy_as_def Let_def node_at_def)

lemma src_ne_target:
  "build_dir e @ [a] \<noteq> copy_target f (build_dir e @ [a]) (package_data_dir e @ [a])"
  by (simp add: copy_target_def build_dir_def package_data_dir_def)

subsection \<open>The concrete package\<close>

lemma build_dir_example [simp]: "build_dir (example_env a b) = [''home'', ''pkg'', ''build'']"
  by (simp add: build_dir_def example_env_def)

lemma makedirs_example:
  "makedirs example_fs [''home'', ''pkg'', ''build''] True
     = Inr (example_fs([''home'', ''pkg'', ''build''] \<mapsto> Dir))"
  by (simp add: makedirs_base mkdir_last_def mkdir_def exists_def node_at_def example_fs_def)

lemma package_data_dir_example [simp]:
  "package_data_dir (example_env a b) = [''home'', ''pkg'', ''pyopentrustregion'']"
  by (simp add: package_data_dir_def example_env_def)

lemma copy_built_fs:
  "copy built_fs [''home'', ''pkg'', ''build'', ''libopentrustregion.so'']
                 [''home'', ''pkg'', ''pyopentrustregion'', ''libopentrustregion.so'']
     = Inr (built_fs([''home'', ''pkg'', ''pyopentrustregion'', ''libopentrustregion.so'']
                       \<mapsto> File [127, 69, 76, 70, 1] 493))"
  by (simp add: copy_def copy_target_def open_write_def exists_def isdir_def node_at_def
        built_fs_def example_fs_def)

section \<open>Properties of a run\<close>

lemma seq_assoc: "seq (seq a b) c = seq a (seq b c)"
  by (rule ext) (simp add: seq_def split: prod.splits sum.splits)

lemma run_before_super: "run e = seq (before_super e) (super_run e)"
  by (simp add: run_def before_super_def seq_assoc)

lemma seq_Inl: "fst (m s) = Inl err \<Longrightarrow> seq m n s = (Inl err, snd (m s))"
  by (cases "m s") (simp add: seq_def)

lemma seq_Inr: "fst (m s) = Inr x \<Longrightarrow> seq m n s = n (snd (m s))"
  by (cases "m s") (simp add: seq_def)

lemma logs_fs_call: "logs (fs_call ev op) [ev]"
  by (simp add: logs_def fs_call_def log_def Let_def split: sum.splits)

lemma logs_check_call: "logs (check_call e cmd cwd) [CheckCall cmd cwd]"
  by (simp add: logs_def check_call_def log_def Let_def split: sum.splits prod.splits)

lemma logs_super_run: "logs (super_run e) [SuperRun]"
  by (simp add: logs_def super_run_def log_def Let_def split: option.splits prod.splits)

lemma logs_seq:
  assumes "logs m T1" "logs n T2"
  shows "logs (seq m n) (T1 @ T2)"
  unfolding logs_def
proof
  fix s
  from assms(1) obtain t1 where t1: "trace (snd (m s)) = trace s @ t1" "prefix t1 T1" "t1 \<noteq> []"
    "\<not> isl (fst (m s)) \<longrightarrow> t1 = T1"
    unfolding logs_def by blast
  show "\<exists>t. trace (snd (seq m n s)) = trace s @ t \<and> prefix t (T1 @ T2) \<and> t \<noteq> [] \<and>
            (\<not> isl (fst (seq m n s)) \<longrightarrow> t = T1 @ T2)"
  proof (cases "fst (m s)")
    case (Inl err)
    then have "seq m n s = (Inl err, snd (m s))" by (rule seq_Inl)
    then show ?thesis using t1 by (auto intro: prefix_order.trans)
  next
    case (Inr x)
    then have r: "seq m n s = n (snd (m s))" by (rule seq_Inr)
    from assms(2) obtain t2 where t2: "trace (snd (n (snd (m s)))) = trace (snd (m s)) @ t2"
      "prefix t2 T2" "t2 \<noteq> []" "\<not> isl (fst (n (snd (m s)))) \<longrightarrow> t2 = T2"
      unfolding logs_def by blast
    have "t1 = T1" using t1(4) Inr by simp
    then show ?thesis using r t1(1) t2 by (intro exI [of _ "T1 @ t2"]) simp
  qed
qed

lemma logs_before_super: "logs (before_super e) (butlast (plan e))"
proof -
  have "logs (before_super e) ([MakeDirs (build_dir e)] @ [CheckCall configure_cmd (build_dir e)] @
      [CheckCall compile_cmd (build_dir e)] @
      [Copy (build_dir e @ [libopentrustregion_file e])
            (package_dir e @ [''pyopentrustregion''] @ [libopentrustregion_file e])] @
      [Copy (build_dir e @ [libtestsuite_file e])
            (package_dir e @ [''pyopentrustregion''] @ [libtestsuite_file e])])"
    unfolding before_super_def os_makedirs_def shutil_copy_def
    by (intro logs_seq logs_fs_call logs_check_call)
  then show ?thesis by (simp add: plan_def package_data_dir_def)
qed

lemma logs_run: "logs (run e) (plan e)"
proof -
  have "logs (run e) (butlast (plan e) @ [SuperRun])"
    unfolding run_before_super by (intro logs_seq logs_before_super logs_super_run)
  then show ?thesis by (simp add: plan_def)
qed

lemma events_run:
  "prefix (events e s) (plan e) \<and> events e s \<noteq> [] \<and>
   (\<not> isl (fst (run e s)) \<longrightarrow> events e s = plan e)"
  using logs_run [of e] unfolding logs_def events_def
  by (metis append_eq_conv_conj)

lemma events_before_super:
  assumes "isl (fst (before_super e s))"
  shows "run e s = before_super e s" "prefix (events e s) (butlast (plan e))"
proof -
  from assms obtain err where "fst (before_super e s) = Inl err" by (cases "fst (before_super e s)") auto
  then show r: "run e s = before_super e s"
    unfolding run_before_super by (simp add: seq_Inl prod_eq_iff)
  show "prefix (events e s) (butlast (plan e))"
    using logs_before_super [of e] unfolding logs_def events_def r
    by (metis append_eq_conv_conj)
qed

lemma events_after_before_super:
  assumes "\<not> isl (fst (before_super e s))"
  shows "run e s = super_run e (snd (before_super e s))" "events e s = plan e"
proof -
  from assms obtain x where x: "fst (before_super e s) = Inr x" by (cases "fst (before_super e s)") auto
  then show r: "run e s = super_run e (snd (before_super e s))"
    unfolding run_before_super by (rule seq_Inr)
  obtain t where t: "trace (snd (before_super e s)) = trace s @ t" "t = butlast (plan e)"
    using logs_before_super [of e] assms unfolding logs_def by blast
  have "trace (snd (super_run e (snd (before_super e s)))) = trace (snd (before_super e s)) @ [SuperRun]"
    by (simp add: super_run_def log_def Let_def split: option.splits prod.splits)
  then show "events e s = plan e"
    unfolding events_def r using t by (simp add: plan_def)
qed

lemma before_super_configure_raises:
  assumes "makedirs (fs s) (build_dir e) True = Inr f1"
    and "spawn e configure_cmd (build_dir e) f1 = Inr (rc, f2)" and "rc \<noteq> 0"
  shows "fst (before_super e s) = Inl (CalledProcessError rc configure_cmd) \<and>
         fs (snd (before_super e s)) = f2 \<and>
         trace (snd (before_super e s))
           = trace s @ [MakeDirs (build_dir e), CheckCall configure_cmd (build_dir e)]"
  using assms
  by (simp add: before_super_def seq_def os_makedirs_def fs_call_def check_call_def log_def Let_def)

lemma before_super_compile_raises:
  assumes "makedirs (fs s) (build_dir e) True = Inr f1"
    and "spawn e configure_cmd (build_dir e) f1 = Inr (0, f2)"
    and "spawn e compile_cmd (build_dir e) f2 = Inr (rc, f3)" and "rc \<noteq> 0"
  shows "fst (before_super e s) = Inl (CalledProcessError rc compile_cmd) \<and>
         fs (snd (before_super e s)) = f3 \<and>
         trace (snd (before_super e s))
           = trace s @ [MakeDirs (build_dir e), CheckCall configure_cmd (build_dir e),
                        CheckCall compile_cmd (build_dir e)]"
  using assms
  by (simp add: before_super_def seq_def os_makedirs_def fs_call_def check_call_def log_def Let_def)

lemma before_super_first_copy_raises:
  assumes "makedirs (fs s) (build_dir e) True = Inr f1"
    and "spawn e configure_cmd (build_dir e) f1 = Inr (0, f2)"
    and "spawn e compile_cmd (build_dir e) f2 = Inr (0, f3)"
    and "copy f3 (build_dir e @ [libopentrustregion_file e])
                 (package_data_dir e @ [libopentrustregion_file e]) = Inl err"
  shows "fst (before_super e s) = Inl err \<and>
         fs (snd (before_super e s)) = f3 \<and>
         trace (snd (before_super e s)) = trace s @ take 4 (plan e)"
  using assms
  by (simp add: before_super_def seq_def os_makedirs_def shutil_copy_def fs_call_def
        check_call_def log_def Let_def plan_def package_data_dir_def)

lemma before_super_second_copy_raises:
  assumes "makedirs (fs s) (build_dir e) True = Inr f1"
    and "spawn e configure_cmd (build_dir e) f1 = Inr (0, f2)"
    and "spawn e compile_cmd (build_dir e) f2 = Inr (0, f3)"
    and "copy f3 (build_dir e @ [libopentrustregion_file e])
                 (package_data_dir e @ [libopentrustregion_file e]) = Inr f4"
    and "copy f4 (build_dir e @ [libtestsuite_file e])
                 (package_data_dir e @ [libtestsuite_file e]) = Inl err"
  shows "fst (before_super e s) = Inl err \<and>
         fs (snd (before_super e s)) = f4 \<and>
         trace (snd (before_super e s)) = trace s @ take 5 (plan e)"
  using assms
  by (simp add: before_super_def seq_def os_makedirs_def shutil_copy_def fs_call_def
        check_call_def log_def Let_def plan_def package_data_dir_def)

lemma before_super_returns:
  assumes "makedirs (fs s) (build_dir e) True = Inr f1"
    and "spawn e configure_cmd (build_dir e) f1 = Inr (0, f2)"
    and "spawn e compile_cmd (build_dir e) f2 = Inr (0, f3)"
    and "copy f3 (build_dir e @ [libopentrustregion_file e])
                 (package_data_dir e @ [libopentrustregion_file e]) = Inr f4"
    and "copy f4 (build_dir e @ [libtestsuite_file e])
                 (package_data_dir e @ [libtestsuite_file e]) = Inr f5"
  shows "fst (before_super e s) = Inr () \<and>
         fs (snd (before_super e s)) = f5 \<and>
         trace (snd (before_super e s)) = trace s @ take 5 (plan e)"
  using assms
  by (simp add: before_super_def seq_def os_makedirs_def shutil_copy_def fs_call_def
        check_call_def log_def Let_def plan_def package_data_dir_def)

lemma run_raises_before_super:
  assumes "fst (before_super e s) = Inl err"
  shows "run e s = before_super e s"
  using assms unfolding run_before_super by (simp add: seq_Inl prod_eq_iff)

lemma events_eq: "trace (snd (run e s)) = trace s @ t \<Longrightarrow> events e s = t"
  by (simp add: events_def)

lemma file_names_differ: "libopentrustregion_file e \<noteq> libtestsuite_file e"
  by (simp add: libopentrustregion_file_def libtestsuite_file_def)

lemma SuperRun_not_before: "SuperRun \<notin> set (butlast (plan e))"
  by (simp add: plan_def)

lemma package_data_not_build: "prefix (package_data_dir e) p \<Longrightarrow> \<not> prefix p (build_dir e)"
proof
  assume "prefix (package_data_dir e) p" "prefix p (build_dir e)"
  then have "prefix (package_data_dir e) (build_dir e)" by (rule prefix_order.trans)
  then show False by (simp add: package_data_dir_def build_dir_def)
qed

lemma copy_Inl_OSError: "copy f src dst = Inl err \<Longrightarrow> is_OSError err"
  by (auto simp: copy_def Let_def open_write_def
           split: if_splits option.splits node.splits sum.splits)

lemma copy_into_absent_dir:
  assumes "wf_fs f" "f d = None" "d \<noteq> []"
  shows "\<exists>err. copy f src (d @ [a]) = Inl err"
proof -
  have n: "f (d @ [a]) = None"
  proof (rule ccontr)
    assume "f (d @ [a]) \<noteq> None"
    then have "isdir f (butlast (d @ [a]))"
      using assms(1) [unfolded wf_fs_def, rule_format, of "d @ [a]"] by simp
    then have "isdir f d" by simp
    then show False using assms(2,3) by (simp add: isdir_def node_at_def)
  qed
  then have t: "copy_target f src (d @ [a]) = d @ [a]"
    by (simp add: copy_target_def isdir_def node_at_def)
  have "open_write f (d @ [a]) = Inl (FileNotFoundError (d @ [a]))"
    using n assms(2,3) by (simp add: open_write_def node_at_def)
  then show ?thesis
    by (simp add: copy_def Let_def t split: option.splits node.splits)
qed

lemma copy_keeps_package_data_dir:
  assumes "copy f src (package_data_dir e @ [a]) = Inr f'"
  shows "f' (package_data_dir e) = f (package_data_dir e)"
proof -
  have "copy_target f src (package_data_dir e @ [a]) \<noteq> package_data_dir e"
    by (simp add: copy_target_def)
  then show ?thesis using assms by (elim copy_Inr) simp
qed

lemma testsuite_copy_not_early:
  "Copy (build_dir e @ [libtestsuite_file e]) (package_data_dir e @ [libtestsuite_file e])
     \<notin> set (take 4 (plan e))"
  using file_names_differ [of e] by (auto simp: plan_def)

subsection \<open>Runs of the concrete package\<close>

lemma names_example [simp]:
  "libopentrustregion_file (example_env a b) = ''libopentrustregion.so''"
  "libtestsuite_file (example_env a b) = ''libtestsuite.so''"
  by (simp_all add: libopentrustregion_file_def libtestsuite_file_def ext_def example_env_def)

lemma core_only_env_simps [simp]:
  "build_dir core_only_env = [''home'', ''pkg'', ''build'']"
  "package_data_dir core_only_env = [''home'', ''pkg'', ''pyopentrustregion'']"
  "libopentrustregion_file core_only_env = ''libopentrustregion.so''"
  "libtestsuite_file core_only_env = ''libtestsuite.so''"
  by (simp_all add: build_dir_def package_data_dir_def libopentrustregion_file_def
        libtestsuite_file_def ext_def core_only_env_def)

lemma makedirs_bare:
  "makedirs bare_fs [''home'', ''pkg'', ''build''] True
     = Inr (bare_fs([''home'', ''pkg'', ''build''] \<mapsto> Dir))"
  by (simp add: makedirs_base mkdir_last_def mkdir_def exists_def node_at_def bare_fs_def)

lemma configure_example:
  "spawn (example_env a b) configure_cmd [''home'', ''pkg'', ''build'']
     (example_fs([''home'', ''pkg'', ''build''] \<mapsto> Dir)) = Inr (a, configured_fs)"
  by (simp add: example_env_def example_spawn_def configured_fs_def)

lemma compile_example:
  "spawn (example_env a 0) compile_cmd [''home'', ''pkg'', ''build''] configured_fs
     = Inr (0, built_fs)"
  by (simp add: example_env_def example_spawn_def configured_fs_def built_fs_def)

lemma compile_example_fails:
  "b \<noteq> 0 \<Longrightarrow>
   spawn (example_env a b) compile_cmd [''home'', ''pkg'', ''build''] configured_fs
     = Inr (b, configured_fs)"
  by (simp add: example_env_def example_spawn_def)

lemma configure_core_only:
  "spawn core_only_env configure_cmd [''home'', ''pkg'', ''build'']
     (example_fs([''home'', ''pkg'', ''build''] \<mapsto> Dir)) = Inr (0, configured_fs)"
  by (simp add: core_only_env_def core_only_spawn_def configured_fs_def)

lemma compile_core_only:
  "spawn core_only_env compile_cmd [''home'', ''pkg'', ''build''] configured_fs
     = Inr (0, core_only_fs)"
  by (simp add: core_only_env_def core_only_spawn_def core_only_fs_def)

lemma configure_compile_bare:
  "spawn (example_env 0 0) configure_cmd [''home'', ''pkg'', ''build'']
     (bare_fs([''home'', ''pkg'', ''build''] \<mapsto> Dir))
     = Inr (0, bare_fs([''home'', ''pkg'', ''build''] \<mapsto> Dir,
                       [''home'', ''pkg'', ''build'', ''Makefile''] \<mapsto> File [109, 97, 107, 101] 420))"
  "spawn (example_env 0 0) compile_cmd [''home'', ''pkg'', ''build'']
     (bare_fs([''home'', ''pkg'', ''build''] \<mapsto> Dir,
              [''home'', ''pkg'', ''build'', ''Makefile''] \<mapsto> File [109, 97, 107, 101] 420))
     = Inr (0, bare_built_fs)"
  by (simp_all add: example_env_def example_spawn_def bare_built_fs_def)

lemma wf_bare_built_fs: "wf_fs bare_built_fs"
  unfolding bare_built_fs_def
  by (intro wf_fs_write wf_fs_mkdir wf_bare_fs) (simp_all add: isdir_def node_at_def bare_fs_def)

lemma bare_built_fs_no_package_data:
  "bare_built_fs [''home'', ''pkg'', ''pyopentrustregion''] = None"
  by (simp add: bare_built_fs_def bare_fs_def)

lemma copy_testsuite_built_fs:
  "copy (built_fs([''home'', ''pkg'', ''pyopentrustregion'', ''libopentrustregion.so'']
                       \<mapsto> File [127, 69, 76, 70, 1] 493))
        [''home'', ''pkg'', ''build'', ''libtestsuite.so'']
        [''home'', ''pkg'', ''pyopentrustregion'', ''libtestsuite.so'']
     = Inr staged_fs"
  by (simp add: copy_def copy_target_def open_write_def exists_def isdir_def node_at_def
        built_fs_def example_fs_def staged_fs_def)

lemma copy_core_only_fs:
  "copy core_only_fs [''home'', ''pkg'', ''build'', ''libopentrustregion.so'']
                     [''home'', ''pkg'', ''pyopentrustregion'', ''libopentrustregion.so'']
     = Inr (core_only_fs([''home'', ''pkg'', ''pyopentrustregion'', ''libopentrustregion.so'']
                       \<mapsto> File [127, 69, 76, 70, 1] 493))"
  by (simp add: copy_def copy_target_def open_write_def exists_def isdir_def node_at_def
        core_only_fs_def configured_fs_def example_fs_def)

lemma copy_testsuite_core_only_fs:
  "copy (core_only_fs([''home'', ''pkg'', ''pyopentrustregion'', ''libopentrustregion.so'']
                       \<mapsto> File [127, 69, 76, 70, 1] 493))
        [''home'', ''pkg'', ''build'', ''libtestsuite.so'']
        [''home'', ''pkg'', ''pyopentrustregion'', ''libtestsuite.so'']
     = Inl (FileNotFoundError [''home'', ''pkg'', ''build'', ''libtestsuite.so''])"
  by (simp add: copy_def copy_target_def open_write_def exists_def isdir_def node_at_def
        core_only_fs_def configured_fs_def example_fs_def)

lemma copy_bare_built_fs:
  "copy bare_built_fs [''home'', ''pkg'', ''build'', ''libopentrustregion.so'']
                      [''home'', ''pkg'', ''pyopentrustregion'', ''libopentrustregion.so'']
     = Inl (FileNotFoundError [''home'', ''pkg'', ''pyopentrustregion'', ''libopentrustregion.so''])"
  by (simp add: copy_def copy_target_def open_write_def exists_def isdir_def node_at_def
        bare_built_fs_def bare_fs_def)

lemma plan_example:
  "plan (example_env a b) =
     [MakeDirs [''home'', ''pkg'', ''build''],
      CheckCall configure_cmd [''home'', ''pkg'', ''build''],
      CheckCall compile_cmd [''home'', ''pkg'', ''build''],
      Copy [''home'', ''pkg'', ''build'', ''libopentrustregion.so'']
           [''home'', ''pkg'', ''pyopentrustregion'', ''libopentrustregion.so''],
      Copy [''home'', ''pkg'', ''build'', ''libtestsuite.so'']
           [''home'', ''pkg'', ''pyopentrustregion'', ''libtestsuite.so''],
      SuperRun]"
  by (simp add: plan_def)

lemma before_super_example:
  "fst (before_super (example_env 0 0) \<lparr>fs = example_fs, trace = []\<rparr>) = Inr () \<and>
   fs (snd (before_super (example_env 0 0) \<lparr>fs = example_fs, trace = []\<rparr>)) = staged_fs \<and>
   trace (snd (before_super (example_env 0 0) \<lparr>fs = example_fs, trace = []\<rparr>))
     = trace \<lparr>fs = example_fs, trace = []\<rparr> @ take 5 (plan (example_env 0 0))"
  by (rule before_super_returns [where ?f1.0 = "example_fs([''home'', ''pkg'', ''build''] \<mapsto> Dir)"
          and ?f2.0 = configured_fs and ?f3.0 = built_fs
          and ?f4.0 = "built_fs([''home'', ''pkg'', ''pyopentrustregion'', ''libopentrustregion.so'']
                       \<mapsto> File [127, 69, 76, 70, 1] 493)"])
     (simp_all add: makedirs_example configure_example compile_example copy_built_fs
        copy_testsuite_built_fs)

lemma events_example:
  "events (example_env 0 0) \<lparr>fs = example_fs, trace = []\<rparr> = plan (example_env 0 0)"
  using before_super_example by (intro events_after_before_super) simp

section \<open>The platform suffix\<close>

text \<open>
  Claim C4. The platform resolver is a total function of the operating-system identifier
  alone: for every identifier the suffix is \<^verbatim>\<open>dylib\<close> exactly when the identifier is
  \<^verbatim>\<open>darwin\<close>, and \<^verbatim>\<open>so\<close> for every other identifier, known or not. Being a HOL function
  of the identifier, it has a value everywhere and reads nothing else.
\<close>

theorem platform_resolver_total:
  "(ext platform = ''dylib'') = (platform = ''darwin'') \<and>
   (ext platform = ''so'') = (platform \<noteq> ''darwin'')"
  by (simp add: ext_def)

theorem platform_resolver_total_witness:
  "ext ''darwin'' = ''dylib'' \<and> ext ''linux'' = ''so'' \<and> ext ''plan9'' = ''so'' \<and> ext [] = ''so''"
  using platform_resolver_total [of "''darwin''"] platform_resolver_total [of "''linux''"]
    platform_resolver_total [of "''plan9''"] platform_resolver_total [of "[]"]
  by simp

section \<open>The build directory\<close>

text \<open>
  Claim C5. \<^verbatim>\<open>os.makedirs(build_dir, exist_ok=True)\<close> is an idempotent create-if-missing:
  whenever it returns, the build directory is a directory, a second call on the file
  system it left returns as well and leaves that file system as it is, and every entry
  that was present before the call (the build directory and what it holds included) is
  still there unchanged. On a well-formed file system on which the build directory is
  already present the call returns and changes nothing at all.
\<close>

theorem build_directory_manager_idempotent:
  "(\<forall>f1. makedirs f (build_dir e) True = Inr f1 \<longrightarrow>
       isdir f1 (build_dir e) \<and>
       makedirs f1 (build_dir e) True = Inr f1 \<and>
       (\<forall>q. f q \<noteq> None \<longrightarrow> f1 q = f q)) \<and>
   (wf_fs f \<longrightarrow> isdir f (build_dir e) \<longrightarrow> makedirs f (build_dir e) True = Inr f)"
proof (intro conjI allI impI)
  fix f1 assume a: "makedirs f (build_dir e) True = Inr f1"
  show "isdir f1 (build_dir e)" using makedirs_isdir [OF a] by simp
  show "makedirs f1 (build_dir e) True = Inr f1" using a by (rule makedirs_again)
  fix q assume "f q \<noteq> None"
  then show "f1 q = f q" using a by (rule makedirs_keeps [rotated])
next
  assume "wf_fs f" "isdir f (build_dir e)"
  then show "makedirs f (build_dir e) True = Inr f" by (rule makedirs_present)
qed

theorem build_directory_manager_idempotent_witness:
  "makedirs example_fs (build_dir (example_env 0 0)) True
     = Inr (example_fs([''home'', ''pkg'', ''build''] \<mapsto> Dir)) \<and>
   isdir (example_fs([''home'', ''pkg'', ''build''] \<mapsto> Dir)) (build_dir (example_env 0 0)) \<and>
   makedirs (example_fs([''home'', ''pkg'', ''build''] \<mapsto> Dir)) (build_dir (example_env 0 0)) True
     = Inr (example_fs([''home'', ''pkg'', ''build''] \<mapsto> Dir)) \<and>
   example_fs [''home'', ''pkg'', ''setup.py''] \<noteq> None \<and>
   (example_fs([''home'', ''pkg'', ''build''] \<mapsto> Dir)) [''home'', ''pkg'', ''setup.py'']
     = example_fs [''home'', ''pkg'', ''setup.py''] \<and>
   wf_fs (example_fs([''home'', ''pkg'', ''build''] \<mapsto> Dir))"
proof -
  let ?f1 = "example_fs([''home'', ''pkg'', ''build''] \<mapsto> Dir)"
  let ?e = "example_env 0 0"
  have m: "makedirs example_fs (build_dir ?e) True = Inr ?f1"
    by (simp add: makedirs_example)
  have s: "example_fs [''home'', ''pkg'', ''setup.py''] \<noteq> None"
    by (simp add: example_fs_def)
  have w: "wf_fs ?f1"
    using makedirs_wf [OF makedirs_example wf_example_fs] .
  have d: "isdir ?f1 (build_dir ?e)"
    by (simp add: isdir_def node_at_def)
  note t1 = build_directory_manager_idempotent [of example_fs ?e]
  note t2 = build_directory_manager_idempotent [of ?f1 ?e]
  note a = conjunct1 [OF t1, THEN spec, of ?f1, THEN mp, OF m]
  note b = conjunct2 [OF t2, THEN mp, OF w, THEN mp, OF d]
  note k = a [THEN conjunct2, THEN conjunct2, THEN spec, of "[''home'', ''pkg'', ''setup.py'']", THEN mp, OF s]
  show ?thesis using m a [THEN conjunct1] b s k w by simp
qed

section \<open>Staging an artifact\<close>

text \<open>
  Both calls of \<^verbatim>\<open>shutil.copy\<close> in \<^verbatim>\<open>run\<close> have the form
  \<^verbatim>\<open>shutil.copy(build_dir / name, package_dir / "pyopentrustregion" / name)\<close>; the two
  theorems of this section hold for every file name, hence for both artifacts.
\<close>






section \<open>The order and the failures of a run\<close>

text \<open>
  Claim C1. The calls of \<^verbatim>\<open>run\<close> occur in one strict order: \<^verbatim>\<open>os.makedirs\<close> of the build
  directory, the configure command, the compile command, the copy of the core library, the
  copy of the test-suite library, the inherited \<^verbatim>\<open>build_py.run\<close>. Whatever the environment
  and the starting state, the calls of a run are a prefix of that list. When all the steps
  before the inherited behaviour succeed, the whole list is run and the result of
  \<^verbatim>\<open>run\<close> is that of the inherited behaviour on the state they left; when one of them
  raises, the inherited behaviour is not called and \<^verbatim>\<open>run\<close> ends as that step did.
\<close>

theorem run_strict_order:
  "prefix (events e s) (plan e) \<and>
   (\<not> isl (fst (before_super e s)) \<longrightarrow>
      events e s = plan e \<and> run e s = super_run e (snd (before_super e s))) \<and>
   (isl (fst (before_super e s)) \<longrightarrow>
      SuperRun \<notin> set (events e s) \<and> run e s = before_super e s)"
proof (intro conjI impI)
  show "prefix (events e s) (plan e)" using events_run by blast
next
  assume "\<not> isl (fst (before_super e s))"
  then show "events e s = plan e" "run e s = super_run e (snd (before_super e s))"
    by (rule events_after_before_super)+
next
  assume a: "isl (fst (before_super e s))"
  then show "run e s = before_super e s" by (rule events_before_super)
  from a have "prefix (events e s) (butlast (plan e))" by (rule events_before_super)
  then have "set (events e s) \<subseteq> set (butlast (plan e))" by (rule set_mono_prefix)
  then show "SuperRun \<notin> set (events e s)" using SuperRun_not_before by blast
qed

theorem run_strict_order_witness:
  "\<not> isl (fst (before_super (example_env 0 0) \<lparr>fs = example_fs, trace = []\<rparr>)) \<and>
   events (example_env 0 0) \<lparr>fs = example_fs, trace = []\<rparr> = plan (example_env 0 0) \<and>
   run (example_env 0 0) \<lparr>fs = example_fs, trace = []\<rparr>
     = super_run (example_env 0 0)
         (snd (before_super (example_env 0 0) \<lparr>fs = example_fs, trace = []\<rparr>)) \<and>
   isl (fst (before_super (example_env 1 0) \<lparr>fs = example_fs, trace = []\<rparr>)) \<and>
   SuperRun \<notin> set (events (example_env 1 0) \<lparr>fs = example_fs, trace = []\<rparr>) \<and>
   run (example_env 1 0) \<lparr>fs = example_fs, trace = []\<rparr>
     = before_super (example_env 1 0) \<lparr>fs = example_fs, trace = []\<rparr>"
proof -
  let ?s = "\<lparr>fs = example_fs, trace = []\<rparr>"
  have ok: "\<not> isl (fst (before_super (example_env 0 0) ?s))"
    using before_super_example by simp
  have "fst (before_super (example_env 1 0) ?s) = Inl (CalledProcessError 1 configure_cmd)"
    using before_super_configure_raises
      [of ?s "example_env 1 0" "example_fs([''home'', ''pkg'', ''build''] \<mapsto> Dir)" 1 configured_fs]
    by (simp add: makedirs_example configure_example)
  then have bad: "isl (fst (before_super (example_env 1 0) ?s))" by simp
  note T1 = run_strict_order [of "example_env 0 0" ?s, THEN conjunct2, THEN conjunct1,
      rule_format, OF ok]
  note T2 = run_strict_order [of "example_env 1 0" ?s, THEN conjunct2, THEN conjunct2,
      rule_format, OF bad]
  from ok T1 [THEN conjunct1] T1 [THEN conjunct2] bad T2 [THEN conjunct1] T2 [THEN conjunct2]
  show ?thesis by (intro conjI)
qed

text \<open>
  Claim C2. In a run in which the build directory could be ensured and the configure
  command exits with a non-zero status \<open>rc\<close>, \<^verbatim>\<open>run\<close> raises
  \<^verbatim>\<open>CalledProcessError(rc, ["cmake", ".."])\<close>, as \<^verbatim>\<open>check_call\<close> raised it; the calls made are
  \<^verbatim>\<open>os.makedirs\<close> and the configure command only, so the compile command is invoked zero
  times, no copy is made and the inherited behaviour is not called; the file system is the
  one the configure process left.
\<close>

theorem configure_failure_stops_run:
  assumes "makedirs (fs s) (build_dir e) True = Inr f1"
    and "spawn e configure_cmd (build_dir e) f1 = Inr (rc, f2)" and "rc \<noteq> 0"
  shows "fst (run e s) = Inl (CalledProcessError rc configure_cmd) \<and>
         fs (snd (run e s)) = f2 \<and>
         events e s = [MakeDirs (build_dir e), CheckCall configure_cmd (build_dir e)] \<and>
         count_list (events e s) (CheckCall compile_cmd (build_dir e)) = 0 \<and>
         (\<forall>src dst. Copy src dst \<notin> set (events e s)) \<and>
         SuperRun \<notin> set (events e s)"
proof -
  note b = before_super_configure_raises [OF assms]
  then have r: "run e s = before_super e s" by (simp add: run_raises_before_super)
  have ev: "events e s = [MakeDirs (build_dir e), CheckCall configure_cmd (build_dir e)]"
    using b r by (simp add: events_eq)
  show ?thesis using b r by (simp add: ev)
qed

theorem configure_failure_stops_run_witness:
  "fst (run (example_env 1 0) \<lparr>fs = example_fs, trace = []\<rparr>)
     = Inl (CalledProcessError 1 [''cmake'', ''..'']) \<and>
   fs (snd (run (example_env 1 0) \<lparr>fs = example_fs, trace = []\<rparr>)) = configured_fs \<and>
   events (example_env 1 0) \<lparr>fs = example_fs, trace = []\<rparr>
     = [MakeDirs [''home'', ''pkg'', ''build''],
        CheckCall [''cmake'', ''..''] [''home'', ''pkg'', ''build'']] \<and>
   count_list (events (example_env 1 0) \<lparr>fs = example_fs, trace = []\<rparr>)
     (CheckCall [''cmake'', ''--build'', ''.''] [''home'', ''pkg'', ''build'']) = 0"
proof -
  let ?s = "\<lparr>fs = example_fs, trace = []\<rparr>" and ?e = "example_env 1 0"
  have mk: "makedirs (fs ?s) (build_dir ?e) True
              = Inr (example_fs([''home'', ''pkg'', ''build''] \<mapsto> Dir))"
    by (simp add: makedirs_example)
  have cf: "spawn ?e configure_cmd (build_dir ?e)
              (example_fs([''home'', ''pkg'', ''build''] \<mapsto> Dir)) = Inr (1, configured_fs)"
    by (simp add: configure_example)
  have rc: "(1::int) \<noteq> 0" by simp
  note T = configure_failure_stops_run [OF mk cf rc, unfolded build_dir_example]
  from T [THEN conjunct1] T [THEN conjunct2, THEN conjunct1]
    T [THEN conjunct2, THEN conjunct2, THEN conjunct1]
    T [THEN conjunct2, THEN conjunct2, THEN conjunct2, THEN conjunct1]
  show ?thesis by (intro conjI)
qed

text \<open>
  Claim C3. In a run in which the configure command succeeds and the compile command exits
  with a non-zero status \<open>rc\<close>, \<^verbatim>\<open>run\<close> raises \<^verbatim>\<open>CalledProcessError\<close> with that status,
  no copy is made, and the file system is the one the compile process left: the
  orchestration itself writes nothing under the package-data directory
  (\<^verbatim>\<open>os.makedirs\<close> leaves every path under it as it was), so every path under it that the
  two external processes did not touch is, after the run, as it was before.
\<close>

theorem compile_failure_stops_run:
  assumes "makedirs (fs s) (build_dir e) True = Inr f1"
    and "spawn e configure_cmd (build_dir e) f1 = Inr (0, f2)"
    and "spawn e compile_cmd (build_dir e) f2 = Inr (rc, f3)" and "rc \<noteq> 0"
  shows "fst (run e s) = Inl (CalledProcessError rc compile_cmd) \<and>
         fs (snd (run e s)) = f3 \<and>
         events e s = [MakeDirs (build_dir e), CheckCall configure_cmd (build_dir e),
                       CheckCall compile_cmd (build_dir e)] \<and>
         (\<forall>src dst. Copy src dst \<notin> set (events e s)) \<and>
         (\<forall>p. prefix (package_data_dir e) p \<longrightarrow> f1 p = fs s p) \<and>
         (\<forall>p. prefix (package_data_dir e) p \<longrightarrow> f2 p = f1 p \<longrightarrow> f3 p = f2 p \<longrightarrow>
              fs (snd (run e s)) p = fs s p)"
proof -
  note b = before_super_compile_raises [OF assms]
  then have r: "run e s = before_super e s" by (simp add: run_raises_before_super)
  have ev: "events e s = [MakeDirs (build_dir e), CheckCall configure_cmd (build_dir e),
                       CheckCall compile_cmd (build_dir e)]"
    using b r by (simp add: events_eq)
  have fr: "\<forall>p. prefix (package_data_dir e) p \<longrightarrow> f1 p = fs s p"
    using makedirs_frame [OF assms(1)] package_data_not_build by blast
  show ?thesis using b r fr by (simp add: ev)
qed

theorem compile_failure_stops_run_witness:
  "fst (run (example_env 0 1) \<lparr>fs = example_fs, trace = []\<rparr>)
     = Inl (CalledProcessError 1 [''cmake'', ''--build'', ''.'']) \<and>
   events (example_env 0 1) \<lparr>fs = example_fs, trace = []\<rparr>
     = [MakeDirs [''home'', ''pkg'', ''build''],
        CheckCall [''cmake'', ''..''] [''home'', ''pkg'', ''build''],
        CheckCall [''cmake'', ''--build'', ''.''] [''home'', ''pkg'', ''build'']] \<and>
   fs (snd (run (example_env 0 1) \<lparr>fs = example_fs, trace = []\<rparr>))
      [''home'', ''pkg'', ''pyopentrustregion'', ''libopentrustregion.so'']
     = fs \<lparr>fs = example_fs, trace = []\<rparr>
         [''home'', ''pkg'', ''pyopentrustregion'', ''libopentrustregion.so'']"
proof -
  let ?s = "\<lparr>fs = example_fs, trace = []\<rparr>" and ?e = "example_env 0 1"
  let ?f1 = "example_fs([''home'', ''pkg'', ''build''] \<mapsto> Dir)"
  let ?p = "[''home'', ''pkg'', ''pyopentrustregion'', ''libopentrustregion.so'']"
  have mk: "makedirs (fs ?s) (build_dir ?e) True = Inr ?f1"
    by (simp add: makedirs_example)
  have cf: "spawn ?e configure_cmd (build_dir ?e) ?f1 = Inr (0, configured_fs)"
    by (simp add: configure_example)
  have cm: "spawn ?e compile_cmd (build_dir ?e) configured_fs = Inr (1, configured_fs)"
    by (simp add: compile_example_fails)
  have rc: "(1::int) \<noteq> 0" by simp
  have pre: "prefix (package_data_dir ?e) ?p" by simp
  have k2: "configured_fs ?p = ?f1 ?p" by (simp add: configured_fs_def)
  note T = compile_failure_stops_run [OF mk cf cm rc, unfolded build_dir_example]
  note F = T [THEN conjunct2, THEN conjunct2, THEN conjunct2, THEN conjunct2, THEN conjunct2,
      rule_format, OF pre k2 refl]
  from T [THEN conjunct1] T [THEN conjunct2, THEN conjunct2, THEN conjunct1] F
  show ?thesis by (intro conjI)
qed



text \<open>
  Claim C9. The orchestration never creates the package-data directory:
  \<^verbatim>\<open>os.makedirs(build_dir)\<close> leaves the entry of \<^verbatim>\<open>pyopentrustregion\<close> as it was, and so does
  every successful copy of an artifact. When, after a successful configure and compile,
  the file system is well formed and has no \<^verbatim>\<open>pyopentrustregion\<close> entry in the package
  directory, \<^verbatim>\<open>run\<close> raises an \<^verbatim>\<open>OSError\<close>, the file system stays as the compile process
  left it (the directory still absent) and the inherited behaviour is not called.
\<close>

theorem staging_needs_package_data_dir:
  "(\<forall>f1. makedirs (fs s) (build_dir e) True = Inr f1 \<longrightarrow>
      f1 (package_data_dir e) = fs s (package_data_dir e)) \<and>
   (\<forall>f a f'. copy f (build_dir e @ [a]) (package_data_dir e @ [a]) = Inr f' \<longrightarrow>
      f' (package_data_dir e) = f (package_data_dir e)) \<and>
   (\<forall>f1 f2 f3.
      makedirs (fs s) (build_dir e) True = Inr f1 \<longrightarrow>
      spawn e configure_cmd (build_dir e) f1 = Inr (0, f2) \<longrightarrow>
      spawn e compile_cmd (build_dir e) f2 = Inr (0, f3) \<longrightarrow>
      wf_fs f3 \<longrightarrow> f3 (package_data_dir e) = None \<longrightarrow>
      (\<exists>err. fst (run e s) = Inl err \<and> is_OSError err) \<and>
      fs (snd (run e s)) = f3 \<and>
      SuperRun \<notin> set (events e s))"
proof (intro conjI allI impI)
  fix f1 assume "makedirs (fs s) (build_dir e) True = Inr f1"
  then show "f1 (package_data_dir e) = fs s (package_data_dir e)"
    using makedirs_frame package_data_not_build [of e "package_data_dir e"] by blast
next
  fix f a f' assume "copy f (build_dir e @ [a]) (package_data_dir e @ [a]) = Inr f'"
  then show "f' (package_data_dir e) = f (package_data_dir e)"
    by (rule copy_keeps_package_data_dir)
next
  fix f1 f2 f3
  assume a: "makedirs (fs s) (build_dir e) True = Inr f1"
    "spawn e configure_cmd (build_dir e) f1 = Inr (0, f2)"
    "spawn e compile_cmd (build_dir e) f2 = Inr (0, f3)"
    and w: "wf_fs f3" and n: "f3 (package_data_dir e) = None"
  have "package_data_dir e \<noteq> []" by (simp add: package_data_dir_def)
  with w n obtain err where
    c: "copy f3 (build_dir e @ [libopentrustregion_file e])
                (package_data_dir e @ [libopentrustregion_file e]) = Inl err"
    using copy_into_absent_dir by blast
  note b = before_super_first_copy_raises [OF a c]
  then have r: "run e s = before_super e s" by (simp add: run_raises_before_super)
  show "\<exists>err. fst (run e s) = Inl err \<and> is_OSError err"
    using b r copy_Inl_OSError [OF c] by simp
  show "fs (snd (run e s)) = f3" using b r by simp
  have "events e s = take 4 (plan e)" using b r by (simp add: events_eq)
  then show "SuperRun \<notin> set (events e s)" by (simp add: plan_def)
qed

theorem staging_needs_package_data_dir_witness:
  "(bare_fs([''home'', ''pkg'', ''build''] \<mapsto> Dir)) (package_data_dir (example_env 0 0))
     = fs \<lparr>fs = bare_fs, trace = []\<rparr> (package_data_dir (example_env 0 0)) \<and>
   (built_fs([''home'', ''pkg'', ''pyopentrustregion'', ''libopentrustregion.so'']
                       \<mapsto> File [127, 69, 76, 70, 1] 493)) (package_data_dir (example_env 0 0))
     = built_fs (package_data_dir (example_env 0 0)) \<and>
   wf_fs bare_built_fs \<and>
   bare_built_fs (package_data_dir (example_env 0 0)) = None \<and>
   (\<exists>err. fst (run (example_env 0 0) \<lparr>fs = bare_fs, trace = []\<rparr>) = Inl err \<and> is_OSError err) \<and>
   fs (snd (run (example_env 0 0) \<lparr>fs = bare_fs, trace = []\<rparr>)) = bare_built_fs \<and>
   SuperRun \<notin> set (events (example_env 0 0) \<lparr>fs = bare_fs, trace = []\<rparr>)"
proof -
  let ?b = "\<lparr>fs = bare_fs, trace = []\<rparr>" and ?e = "example_env 0 0"
  let ?b1 = "bare_fs([''home'', ''pkg'', ''build''] \<mapsto> Dir)"
  let ?b2 = "bare_fs([''home'', ''pkg'', ''build''] \<mapsto> Dir,
                       [''home'', ''pkg'', ''build'', ''Makefile''] \<mapsto> File [109, 97, 107, 101] 420)"
  let ?f4 = "built_fs([''home'', ''pkg'', ''pyopentrustregion'', ''libopentrustregion.so'']
                       \<mapsto> File [127, 69, 76, 70, 1] 493)"
  have mkb: "makedirs (fs ?b) (build_dir ?e) True = Inr ?b1"
    by (simp add: makedirs_bare)
  have cfb: "spawn ?e configure_cmd (build_dir ?e) ?b1 = Inr (0, ?b2)"
    by (simp add: configure_compile_bare)
  have cmb: "spawn ?e compile_cmd (build_dir ?e) ?b2 = Inr (0, bare_built_fs)"
    by (simp add: configure_compile_bare)
  have n: "bare_built_fs (package_data_dir ?e) = None"
    by (simp add: bare_built_fs_no_package_data)
  have c: "copy built_fs (build_dir ?e @ [''libopentrustregion.so''])
             (package_data_dir ?e @ [''libopentrustregion.so'']) = Inr ?f4"
    by (simp add: copy_built_fs)
  note T = staging_needs_package_data_dir [of ?b ?e]
  note A = T [THEN conjunct1, rule_format, OF mkb]
  note B = T [THEN conjunct2, THEN conjunct1, rule_format, OF c]
  note C = T [THEN conjunct2, THEN conjunct2, rule_format, OF mkb cfb cmb wf_bare_built_fs n]
  from A B wf_bare_built_fs n C [THEN conjunct1] C [THEN conjunct2, THEN conjunct1]
    C [THEN conjunct2, THEN conjunct2]
  show ?thesis by (intro conjI)
qed

text \<open>
  Claim C10. Both artifact file names are built from the one suffix that \<^verbatim>\<open>ext\<close> gives for
  the platform of the environment, which a run cannot change; and every copy that a run
  makes takes \<^verbatim>\<open>lib<stem>.<suffix>\<close> from the build directory to the file of the same name in
  the package-data directory, \<open>stem\<close> being \<^verbatim>\<open>opentrustregion\<close> or \<^verbatim>\<open>testsuite\<close>.
\<close>

theorem artifact_names_share_suffix:
  "libopentrustregion_file e = ''libopentrustregion.'' @ ext (sys_platform e) \<and>
   libtestsuite_file e = ''libtestsuite.'' @ ext (sys_platform e) \<and>
   (\<forall>src dst. Copy src dst \<in> set (events e s) \<longrightarrow>
      (\<exists>stem \<in> {''libopentrustregion'', ''libtestsuite''}.
         src = build_dir e @ [stem @ ''.'' @ ext (sys_platform e)] \<and>
         dst = package_dir e @ [''pyopentrustregion''] @ [stem @ ''.'' @ ext (sys_platform e)]))"
proof (intro conjI allI impI)
  show "libopentrustregion_file e = ''libopentrustregion.'' @ ext (sys_platform e)"
    by (simp add: libopentrustregion_file_def)
  show "libtestsuite_file e = ''libtestsuite.'' @ ext (sys_platform e)"
    by (simp add: libtestsuite_file_def)
next
  fix src dst assume "Copy src dst \<in> set (events e s)"
  moreover have "set (events e s) \<subseteq> set (plan e)"
    using events_run set_mono_prefix by blast
  ultimately have "Copy src dst \<in> set (plan e)" by blast
  then show "\<exists>stem \<in> {''libopentrustregion'', ''libtestsuite''}.
         src = build_dir e @ [stem @ ''.'' @ ext (sys_platform e)] \<and>
         dst = package_dir e @ [''pyopentrustregion''] @ [stem @ ''.'' @ ext (sys_platform e)]"
    by (auto simp: plan_def package_data_dir_def libopentrustregion_file_def libtestsuite_file_def)
qed

theorem artifact_names_share_suffix_witness:
  "libopentrustregion_file (example_env 0 0) = ''libopentrustregion.'' @ ext ''linux'' \<and>
   libtestsuite_file (example_env 0 0) = ''libtestsuite.'' @ ext ''linux'' \<and>
   Copy [''home'', ''pkg'', ''build'', ''libopentrustregion.so'']
        [''home'', ''pkg'', ''pyopentrustregion'', ''libopentrustregion.so'']
     \<in> set (events (example_env 0 0) \<lparr>fs = example_fs, trace = []\<rparr>) \<and>
   (\<exists>stem \<in> {''libopentrustregion'', ''libtestsuite''}.
      [''home'', ''pkg'', ''build'', ''libopentrustregion.so'']
        = build_dir (example_env 0 0) @ [stem @ ''.'' @ ext ''linux''] \<and>
      [''home'', ''pkg'', ''pyopentrustregion'', ''libopentrustregion.so'']
        = package_dir (example_env 0 0) @ [''pyopentrustregion''] @ [stem @ ''.'' @ ext ''linux''])"
proof -
  let ?s = "\<lparr>fs = example_fs, trace = []\<rparr>" and ?e = "example_env 0 0"
  have p: "sys_platform ?e = ''linux''" by (simp add: example_env_def)
  have m: "Copy [''home'', ''pkg'', ''build'', ''libopentrustregion.so'']
        [''home'', ''pkg'', ''pyopentrustregion'', ''libopentrustregion.so''] \<in> set (events ?e ?s)"
    by (simp add: events_example plan_example)
  note T = artifact_names_share_suffix [of ?e ?s, unfolded p]
  note C = T [THEN conjunct2, THEN conjunct2, rule_format, OF m]
  from T [THEN conjunct1] T [THEN conjunct2, THEN conjunct1] m C
  show ?thesis by (intro conjI)
qed

end
